theory Spec2Isabelle
  imports Main "HOL-Library.Sublist"
begin

section \<open>Python strings and paths as used by \<open>catkin_tools_python/job.py\<close>\<close>

text \<open>
  A Python \<open>str\<close> or \<open>bytes\<close> value is a \<open>string\<close> (a list of 8-bit characters; for
  \<open>str\<close> the characters are the code points below 256). The library operations that
  \<open>job.py\<close> calls on them are written out here with the behaviour of CPython 3.
\<close>

definition LF :: char where
  "LF = CHR 0x0A"

text \<open>ASCII whitespace: what \<open>\s\<close> matches in a bytes pattern.\<close>

definition bytes_isspace :: "char \<Rightarrow> bool" where
  "bytes_isspace c = (c \<in> set [CHR 0x20, CHR 0x09, CHR 0x0A, CHR 0x0D, CHR 0x0B, CHR 0x0C])"

text \<open>Whitespace of \<open>str.split()\<close>: the code points below 256 for which \<open>str.isspace\<close> holds.\<close>

definition str_isspace :: "char \<Rightarrow> bool" where
  "str_isspace c = (c \<in> set [CHR 0x20, CHR 0x09, CHR 0x0A, CHR 0x0D, CHR 0x0B, CHR 0x0C,
                               CHR 0x1C, CHR 0x1D, CHR 0x1E, CHR 0x1F, CHR 0x85, CHR 0xA0])"

text \<open>
  \<open>s.split()\<close> without a separator: runs of whitespace separate the tokens and no empty
  token is produced. \<open>cur\<close> is the token being read.
\<close>

fun split_acc :: "(char \<Rightarrow> bool) \<Rightarrow> string \<Rightarrow> string \<Rightarrow> string list" where
  "split_acc sp cur [] = (if cur = [] then [] else [cur])"
| "split_acc sp cur (c # cs) =
     (if sp c then (if cur = [] then split_acc sp [] cs else cur # split_acc sp [] cs)
      else split_acc sp (cur @ [c]) cs)"

definition str_split :: "string \<Rightarrow> string list" where
  "str_split s = split_acc str_isspace [] s"

definition bytes_split :: "string \<Rightarrow> string list" where
  "bytes_split s = split_acc bytes_isspace [] s"

text \<open>\<open>sep.join(parts)\<close>.\<close>

fun str_join :: "string \<Rightarrow> string list \<Rightarrow> string" where
  "str_join sep [] = []"
| "str_join sep [x] = x"
| "str_join sep (x # y # ys) = x @ sep @ str_join sep (y # ys)"

text \<open>\<open>sub in s\<close> on strings: \<open>sub\<close> occurs in \<open>s\<close> as a contiguous run.\<close>

fun str_in :: "string \<Rightarrow> string \<Rightarrow> bool" where
  "str_in sub [] = (sub = [])"
| "str_in sub (c # cs) = (prefix sub (c # cs) \<or> str_in sub cs)"

definition startswith :: "string \<Rightarrow> string \<Rightarrow> bool" where
  "startswith s p = prefix p s"

definition endswith :: "string \<Rightarrow> string \<Rightarrow> bool" where
  "endswith s p = suffix p s"

text \<open>
  \<open>s.replace(old, new)\<close>: every occurrence of \<open>old\<close>, found from the left and not
  overlapping, becomes \<open>new\<close>. For an empty \<open>old\<close> Python puts \<open>new\<close> before every
  character and at the end.
\<close>

function replace_from :: "string \<Rightarrow> string \<Rightarrow> string \<Rightarrow> string" where
  "replace_from old new [] = []"
| "replace_from old new (c # cs) =
     (if old \<noteq> [] \<and> prefix old (c # cs)
      then new @ replace_from old new (drop (length old) (c # cs))
      else c # replace_from old new cs)"
  by pat_completeness auto
termination
  by (relation "measure (\<lambda>(old, new, s). length s)") (auto simp: neq_Nil_conv)

definition replace :: "string \<Rightarrow> string \<Rightarrow> string \<Rightarrow> string" where
  "replace s old new =
     (if old = [] then new @ concat (map (\<lambda>c. c # new) s) else replace_from old new s)"


text \<open>\<open>'%s' % n\<close> for an integer: its decimal numeral.\<close>

definition digit_char :: "nat \<Rightarrow> char" where
  "digit_char d = ''0123456789'' ! (d mod 10)"

function str_nat :: "nat \<Rightarrow> string" where
  "str_nat n = (if n < 10 then [digit_char n] else str_nat (n div 10) @ [digit_char (n mod 10)])"
  by pat_completeness auto
termination
  by (relation "measure id") auto

definition str_int :: "int \<Rightarrow> string" where
  "str_int i = (if i < 0 then CHR ''-'' # str_nat (nat (- i)) else str_nat (nat i))"

text \<open>
  \<open>int(tok)\<close> on a token that holds no whitespace: an optional sign, then decimal digits,
  where single underscores may stand between digits. Anything else raises \<open>ValueError\<close>,
  here \<open>None\<close>.
\<close>

definition isdigit :: "char \<Rightarrow> bool" where
  "isdigit c = (c \<in> set ''0123456789'')"

definition digit_val :: "char \<Rightarrow> nat" where
  "digit_val c = of_char c - 48"

fun digits_ok :: "string \<Rightarrow> bool" where
  "digits_ok [] = False"
| "digits_ok [c] = isdigit c"
| "digits_ok (c # d # ds) =
     (isdigit c \<and> (if d = CHR ''_'' then digits_ok ds else digits_ok (d # ds)))"

definition nat_of_digits :: "string \<Rightarrow> nat" where
  "nat_of_digits s = foldl (\<lambda>a c. 10 * a + digit_val c) 0 (filter isdigit s)"

definition parse_nat :: "string \<Rightarrow> nat option" where
  "parse_nat s = (if digits_ok s then Some (nat_of_digits s) else None)"

fun parse_int :: "string \<Rightarrow> int option" where
  "parse_int [] = None"
| "parse_int (c # cs) =
     (if c = CHR ''+'' then map_option int (parse_nat cs)
      else if c = CHR ''-'' then map_option (\<lambda>n. - int n) (parse_nat cs)
      else map_option int (parse_nat (c # cs)))"

text \<open>\<open>os.path.join\<close> of \<open>posixpath\<close>.\<close>

definition join_step :: "string \<Rightarrow> string \<Rightarrow> string" where
  "join_step path b =
     (if startswith b ''/'' then b
      else if path = [] \<or> endswith path ''/'' then path @ b
      else path @ ''/'' @ b)"

definition os_path_join :: "string \<Rightarrow> string list \<Rightarrow> string" where
  "os_path_join a ps = foldl join_step a ps"


section \<open>Regular expressions\<close>

text \<open>
  The three patterns of \<open>job.py\<close> use literals, alternation, sequence, \<open>\s\<close> and \<open>$\<close>.
  \<open>re_ends r s\<close> lists, in the order of Python's backtracking, what is left of \<open>s\<close> after
  each way \<open>r\<close> can match at its start. Without the MULTILINE flag \<open>$\<close> matches at the
  end of the text and before a newline that ends it.
\<close>

datatype regex = Lit string | Space | Dollar | Seq regex regex | Alt regex regex

fun re_ends :: "regex \<Rightarrow> string \<Rightarrow> string list" where
  "re_ends (Lit l) s = (if prefix l s then [drop (length l) s] else [])"
| "re_ends Space s = (case s of [] \<Rightarrow> [] | c # cs \<Rightarrow> if bytes_isspace c then [cs] else [])"
| "re_ends Dollar s = (if s = [] \<or> s = [LF] then [s] else [])"
| "re_ends (Seq r1 r2) s = concat (map (re_ends r2) (re_ends r1 s))"
| "re_ends (Alt r1 r2) s = re_ends r1 s @ re_ends r2 s"

text \<open>\<open>re.match\<close> anchors at the start; \<open>re.search\<close> tries every start position.\<close>

definition re_match :: "regex \<Rightarrow> string \<Rightarrow> bool" where
  "re_match r s = (re_ends r s \<noteq> [])"

fun re_search :: "regex \<Rightarrow> string \<Rightarrow> bool" where
  "re_search r [] = re_match r []"
| "re_search r (c # cs) = (re_match r (c # cs) \<or> re_search r cs)"

text \<open>\<open>'(from|import) setuptools'\<close>\<close>

definition svem_pattern :: regex where
  "svem_pattern = Seq (Alt (Lit ''from'') (Lit ''import'')) (Lit '' setuptools'')"



section \<open>Stage helpers\<close>

datatype error = IOError | ProcessError | IndexError | ValueError

subsection \<open>\<open>fix_shebangs\<close>\<close>







subsection \<open>\<open>fix_python3_install_space\<close>\<close>

text \<open>
  The file system as this helper sees it: the bytes of each existing file by path, and the
  log of the writes performed, latest first.
\<close>

record filesystem =
  files :: "string \<rightharpoonup> string"
  writes :: "(string \<times> string) list"

definition write_file :: "filesystem \<Rightarrow> string \<Rightarrow> string \<Rightarrow> filesystem" where
  "write_file fs path contents =
     fs\<lparr>files := (files fs)(path \<mapsto> contents), writes := (path, contents) # writes fs\<rparr>"

definition fix_python3_install_space ::
  "filesystem \<Rightarrow> string \<Rightarrow> string \<Rightarrow> int \<Rightarrow> filesystem" where
  "fix_python3_install_space fs install_space old_python new_python =
     (let old_python_path = ''/lib/python'' @ old_python;
          new_python_path = ''/lib/python'' @ str_int new_python;
          filepath = os_path_join install_space [''setup.sh'']
      in case files fs filepath of
           None \<Rightarrow> fs
         | Some c \<Rightarrow>
             (let contents = replace c old_python_path new_python_path
              in if contents \<noteq> [] then write_file fs filepath contents else fs))"


section \<open>The planner\<close>

subsection \<open>Data\<close>

text \<open>
  What the planner reads of the host's \<open>package\<close> and \<open>context\<close> objects. The four path
  resolvers are methods of the context that take the package.
\<close>

record package =
  name :: string

record "context" =
  source_space_abs :: string
  package_build_space :: "package \<Rightarrow> string"
  package_metadata_path :: "package \<Rightarrow> string"
  package_dest_path :: "package \<Rightarrow> string"
  package_final_path :: "package \<Rightarrow> string"
  cmake_args :: "string list"
  isolate_install :: bool

text \<open>
  A function stage binds one of the host's or this module's functors to keyword
  arguments; each constructor lists the arguments in the order the source gives them.
\<close>

datatype call =
    Loadenv "string \<rightharpoonup> string" package "context"
  | Makedirs string
  | Copyfiles "string list" string
  | Renamepath string string
  | Fix_shebangs string string
  | Generate_setup_file "context" string
  | Generate_env_file "context" string
  | Fix_python3_install_space string string int

text \<open>
  The host's stage constructors take \<open>locked_resource\<close> as an optional keyword that
  defaults to \<open>None\<close>. An element of a command line is a string or, for an executable
  that \<open>which\<close> did not find, \<open>None\<close>.
\<close>

datatype stage =
    CommandStage (label: string) (cmd: "string option list") (cwd: string)
      (locked_resource: "string option")
  | FunctionStage (label: string) (callee: call) (locked_resource: "string option")

record job =
  jid :: string
  deps :: "string list"
  env :: "string \<rightharpoonup> string"
  stages :: "stage list"

text \<open>
  What the planner reads of the process and the machine: \<open>os.environ\<close>, the module
  globals \<open>PYTHON_EXEC\<close> and \<open>RSYNC_EXEC\<close>, the result of the host's
  \<open>get_python_install_dir()\<close>, the text that \<open>open(path).read()\<close> returns (\<open>None\<close> when
  it raises), and the output of \<open>subprocess.check_output(argv)\<close> (\<open>None\<close> when it
  raises).
\<close>

record world =
  environ :: "string \<rightharpoonup> string"
  PYTHON_EXEC :: string
  RSYNC_EXEC :: "string option"
  python_install_dir :: string
  read_text :: "string \<rightharpoonup> string"
  check_output :: "string list \<rightharpoonup> string"

record python_version =
  major :: int
  minor :: int

subsection \<open>\<open>strip_ccache\<close>, \<open>determine_python_exec\<close>, \<open>determine_python_version\<close>\<close>

definition strip_ccache :: "string \<Rightarrow> string" where
  "strip_ccache cc_str =
     (let parts = str_split cc_str
      in str_join '' '' (filter (\<lambda>part. \<not> str_in ''ccache'' part) parts))"

text \<open>The result is the value of the global \<open>PYTHON_EXEC\<close> after the call.\<close>

definition determine_python_exec :: "string list \<Rightarrow> string \<Rightarrow> string" where
  "determine_python_exec args python_exec =
     (case filter (\<lambda>x. str_in ''PYTHON_EXECUTABLE'' x) args of
        [] \<Rightarrow> python_exec
      | x # _ \<Rightarrow> replace x ''-DPYTHON_EXECUTABLE='' [])"

definition py_version_cmd :: string where
  \<open>py_version_cmd = ''import sys; print("%s %s" % sys.version_info[0:2])''\<close>

definition determine_python_version :: "world \<Rightarrow> string \<Rightarrow> error + python_version" where
  "determine_python_version w python_exec =
     (case check_output w [python_exec, ''-c'', py_version_cmd] of
        None \<Rightarrow> Inl ProcessError
      | Some out \<Rightarrow>
          (case bytes_split out of
             [] \<Rightarrow> Inl IndexError
           | a # rest \<Rightarrow>
               (case parse_int a of
                  None \<Rightarrow> Inl ValueError
                | Some mj \<Rightarrow>
                    (case rest of
                       [] \<Rightarrow> Inl IndexError
                     | b # _ \<Rightarrow>
                         (case parse_int b of
                            None \<Rightarrow> Inl ValueError
                          | Some mn \<Rightarrow> Inr \<lparr>major = mj, minor = mn\<rparr>)))))"

subsection \<open>\<open>create_python_build_job\<close> and \<open>create_python_clean_job\<close>\<close>

text \<open>
  The result pairs the value of the global \<open>PYTHON_EXEC\<close> after the call with the
  outcome: the exception raised, or the job returned.
\<close>

text \<open>
  Lines 143 to 153: the job environment is a copy of \<open>os.environ\<close> in which the \<open>CC\<close>
  and \<open>CXX\<close> entries, where present, went through \<open>strip_ccache\<close>.
\<close>

definition build_job_env :: "(string \<rightharpoonup> string) \<Rightarrow> (string \<rightharpoonup> string)" where
  "build_job_env os_environ =
     (let job_env = os_environ;
          job_env = (case job_env ''CC'' of
                       None \<Rightarrow> job_env
                     | Some v \<Rightarrow> job_env(''CC'' \<mapsto> strip_ccache v));
          job_env = (case job_env ''CXX'' of
                       None \<Rightarrow> job_env
                     | Some v \<Rightarrow> job_env(''CXX'' \<mapsto> strip_ccache v))
      in job_env)"

definition create_python_build_job ::
  "world \<Rightarrow> context \<Rightarrow> package \<Rightarrow> string \<Rightarrow> string list \<Rightarrow> bool \<Rightarrow> bool
     \<Rightarrow> string \<times> (error + job)" where
  "create_python_build_job w ctx pkg package_path dependencies force_cmake pre_clean =
     (let pkg_dir = os_path_join (source_space_abs ctx) [package_path];
          build_space = package_build_space ctx pkg;
          metadata_path = package_metadata_path ctx pkg;
          job_env = build_job_env (environ w);
          dest_path = package_dest_path ctx pkg;
          final_path = package_final_path ctx pkg;
          python_exec = determine_python_exec (cmake_args ctx) (PYTHON_EXEC w)
      in (python_exec,
          case determine_python_version w python_exec of
            Inl e \<Rightarrow> Inl e
          | Inr version \<Rightarrow>
              (case read_text w (os_path_join pkg_dir [''setup.py'']) of
                 None \<Rightarrow> Inl IOError
               | Some setup_file_contents \<Rightarrow>
                   (let svem_supported = re_search svem_pattern setup_file_contents;
                        install_dir = python_install_dir w
                    in Inr \<lparr>
                      jid = name pkg,
                      deps = dependencies,
                      env = job_env,
                      stages =
                        [FunctionStage ''loadenv'' (Loadenv job_env pkg ctx)
                           (Some ''installspace''),
                         FunctionStage ''mkdir'' (Makedirs metadata_path) None,
                         FunctionStage ''cache-manifest''
                           (Copyfiles
                              [os_path_join (source_space_abs ctx) [package_path, ''package.xml'']]
                              (os_path_join metadata_path [''package.xml'']))
                           None,
                         CommandStage ''python''
                           ([Some python_exec, Some ''setup.py'',
                             Some ''build'', Some ''--build-base'', Some build_space,
                             Some ''install'',
                             Some ''--root'', Some build_space,
                             Some ''--prefix'', Some ''install''] @
                            (if svem_supported
                             then [Some ''--single-version-externally-managed''] else []))
                           pkg_dir None] @
                        (if str_in ''dist-packages'' install_dir
                         then
                           (let install_dir_site =
                                  replace install_dir ''dist-packages'' ''site-packages'';
                                install_dir =
                                  (if major version = 3
                                   then replace install_dir
                                          (''python'' @ str_int (major version) @ ''.'' @
                                           str_int (minor version))
                                          (''python'' @ str_int (major version))
                                   else install_dir)
                            in [FunctionStage ''debian-fix''
                                  (Renamepath
                                     (os_path_join build_space [''install'', install_dir_site])
                                     (os_path_join build_space [''install'', install_dir]))
                                  None])
                         else []) @
                        [FunctionStage ''mkdir-install'' (Makedirs dest_path) None,
                         CommandStage ''install''
                           [RSYNC_EXEC w, Some ''-a'',
                            Some (os_path_join build_space [''install'', []]),
                            Some dest_path]
                           pkg_dir (Some ''installspace''),
                         FunctionStage ''fix-shebang'' (Fix_shebangs dest_path python_exec)
                           (if isolate_install ctx then None else Some ''installspace''),
                         FunctionStage ''setupgen'' (Generate_setup_file ctx dest_path) None,
                         FunctionStage ''envgen'' (Generate_env_file ctx dest_path) None] @
                        (if major version = 3
                         then [FunctionStage ''fix_python3_install_space''
                                 (Fix_python3_install_space dest_path
                                    (str_int (major version) @ ''.'' @ str_int (minor version))
                                    (major version))
                                 (Some ''installspace'')]
                         else [])\<rparr>))))"

definition create_python_clean_job ::
  "context \<Rightarrow> package \<Rightarrow> string \<Rightarrow> string list \<Rightarrow> bool \<Rightarrow> bool \<Rightarrow> bool \<Rightarrow> bool \<Rightarrow> job" where
  "create_python_clean_job ctx pkg package_path dependencies dry_run
       clean_build clean_devel clean_install =
     (let build_space = package_build_space ctx pkg;
          metadata_path = package_metadata_path ctx pkg;
          job_env = Map.empty
      in \<lparr>jid = name pkg, deps = dependencies, env = job_env, stages = []\<rparr>)"


subsection \<open>A sample workspace\<close>

text \<open>
  One package of a workspace on a Debian machine, built for \<open>/usr/bin/python3\<close>
  (Python 3.8) through a \<open>PYTHON_EXECUTABLE\<close> argument; the host names the install
  directory \<open>lib/python3.8/dist-packages\<close>.
\<close>

definition sample_package :: package where
  "sample_package = \<lparr>name = ''mypkg''\<rparr>"

definition sample_context :: "context" where
  "sample_context =
     \<lparr>source_space_abs = ''/ws/src'',
      package_build_space = (\<lambda>p. ''/ws/build/'' @ name p),
      package_metadata_path = (\<lambda>p. ''/ws/.catkin_tools/'' @ name p),
      package_dest_path = (\<lambda>p. ''/ws/install''),
      package_final_path = (\<lambda>p. ''/ws/install''),
      cmake_args = [''-DCMAKE_BUILD_TYPE=Release'', ''-DPYTHON_EXECUTABLE=/usr/bin/python3''],
      isolate_install = False\<rparr>"

definition sample_world :: world where
  "sample_world =
     \<lparr>environ = [''CC'' \<mapsto> ''ccache gcc -O2'', ''HOME'' \<mapsto> ''/root''],
      PYTHON_EXEC = ''/usr/bin/python'',
      RSYNC_EXEC = Some ''/usr/bin/rsync'',
      python_install_dir = ''lib/python3.8/dist-packages'',
      read_text = [''/ws/src/mypkg/setup.py'' \<mapsto> ''from setuptools import setup''],
      check_output =
        [[''/usr/bin/python3'', ''-c'', py_version_cmd] \<mapsto> ''3 8'' @ [LF]]\<rparr>"


text \<open>
  The same package built for the default interpreter \<open>/usr/bin/python\<close> (Python 2.7),
  with no \<open>PYTHON_EXECUTABLE\<close> argument.
\<close>

definition sample_context_py2 :: "context" where
  "sample_context_py2 = sample_context\<lparr>cmake_args := [''-DCMAKE_BUILD_TYPE=Release'']\<rparr>"

definition sample_world_py2 :: world where
  "sample_world_py2 =
     sample_world\<lparr>python_install_dir := ''lib/python2.7/dist-packages'',
       check_output := [[''/usr/bin/python'', ''-c'', py_version_cmd] \<mapsto> ''2 7'' @ [LF]]\<rparr>"



section \<open>Facts about the string operations\<close>

lemma split_acc_tokens:
  "\<forall>c\<in>set cur. \<not> sp c \<Longrightarrow>
   \<forall>t\<in>set (split_acc sp cur s). t \<noteq> [] \<and> (\<forall>c\<in>set t. \<not> sp c)"
proof (induction s arbitrary: cur)
  case Nil
  then show ?case by simp
next
  case (Cons a s)
  have e: "\<forall>t\<in>set (split_acc sp [] s). t \<noteq> [] \<and> (\<forall>c\<in>set t. \<not> sp c)"
    by (rule Cons.IH) simp
  show ?case
  proof (cases "sp a")
    case True
    then show ?thesis using e Cons.prems by simp
  next
    case False
    then have "\<forall>c\<in>set (cur @ [a]). \<not> sp c" using Cons.prems by simp
    then have "\<forall>t\<in>set (split_acc sp (cur @ [a]) s). t \<noteq> [] \<and> (\<forall>c\<in>set t. \<not> sp c)"
      by (rule Cons.IH)
    then show ?thesis using False by simp
  qed
qed

lemma split_acc_append:
  "\<forall>c\<in>set t. \<not> sp c \<Longrightarrow> split_acc sp cur (t @ r) = split_acc sp (cur @ t) r"
  by (induction t arbitrary: cur) auto

lemma split_acc_join:
  assumes sp: "sp (CHR '' '')"
  shows "\<forall>t\<in>set ts. t \<noteq> [] \<and> (\<forall>c\<in>set t. \<not> sp c) \<Longrightarrow>
         split_acc sp [] (str_join '' '' ts) = ts"
proof (induction ts rule: induct_list012)
  case 1
  then show ?case by simp
next
  case (2 x)
  then have "split_acc sp [] (x @ []) = split_acc sp ([] @ x) []"
    by (intro split_acc_append) simp
  with 2 show ?case by simp
next
  case (3 x y ys)
  then have ih: "split_acc sp [] (str_join '' '' (y # ys)) = y # ys"
    and x: "x \<noteq> []" "\<forall>c\<in>set x. \<not> sp c"
    by simp_all
  have "split_acc sp [] (x @ (CHR '' '' # str_join '' '' (y # ys))) =
        split_acc sp ([] @ x) (CHR '' '' # str_join '' '' (y # ys))"
    using x by (intro split_acc_append) simp
  then show ?case using ih x sp by simp
qed

lemma str_split_strip_ccache:
  "str_split (strip_ccache s) = filter (\<lambda>part. \<not> str_in ''ccache'' part) (str_split s)"
proof -
  have tok: "\<forall>t\<in>set (split_acc str_isspace [] s). t \<noteq> [] \<and> (\<forall>c\<in>set t. \<not> str_isspace c)"
    by (rule split_acc_tokens) simp
  have sp: "str_isspace (CHR '' '')" by (simp add: str_isspace_def)
  show ?thesis
    unfolding strip_ccache_def str_split_def Let_def
    by (rule split_acc_join[where sp = str_isspace, OF sp]) (use tok in auto)
qed

lemma strip_ccache_idem: "strip_ccache (strip_ccache s) = strip_ccache s"
proof -
  have "strip_ccache (strip_ccache s) =
        str_join '' '' (filter (\<lambda>part. \<not> str_in ''ccache'' part) (str_split (strip_ccache s)))"
    by (simp add: strip_ccache_def[of "strip_ccache s"])
  also have "\<dots> = strip_ccache s"
    by (simp add: str_split_strip_ccache) (simp add: strip_ccache_def)
  finally show ?thesis .
qed


lemma build_job_env_apply:
  "build_job_env e k =
     (if k = ''CC'' \<or> k = ''CXX'' then map_option strip_ccache (e k) else e k)"
  by (simp add: build_job_env_def Let_def split: option.splits)

section \<open>Facts about the planner\<close>

text \<open>A job is returned only after the version probe and the read of \<open>setup.py\<close> succeeded.\<close>

lemma create_python_build_job_ok:
  assumes "snd (create_python_build_job w ctx pkg package_path dependencies force_cmake pre_clean)
             = Inr j"
  obtains v src where
    "determine_python_version w (determine_python_exec (cmake_args ctx) (PYTHON_EXEC w)) = Inr v"
    "read_text w (os_path_join (os_path_join (source_space_abs ctx) [package_path]) [''setup.py''])
       = Some src"
  using assms by (auto simp: create_python_build_job_def Let_def split: sum.splits option.splits)

lemma create_python_build_job_returns:
  assumes "determine_python_version w (determine_python_exec (cmake_args ctx) (PYTHON_EXEC w)) = Inr v"
    and "read_text w (os_path_join (os_path_join (source_space_abs ctx) [package_path]) [''setup.py''])
           = Some src"
  shows "\<exists>j. snd (create_python_build_job w ctx pkg package_path dependencies force_cmake pre_clean)
           = Inr j"
  using assms by (simp add: create_python_build_job_def Let_def)

lemma job_fields:
  assumes "snd (create_python_build_job w ctx pkg package_path dependencies force_cmake pre_clean)
             = Inr j"
  shows "jid j = name pkg \<and> deps j = dependencies \<and> env j = build_job_env (environ w)"
  using assms by (auto simp: create_python_build_job_def Let_def split: sum.splits option.splits)



subsection \<open>The sample workspace, evaluated\<close>

lemma sample_exec:
  "determine_python_exec (cmake_args sample_context) (PYTHON_EXEC sample_world) = ''/usr/bin/python3''"
  by (simp add: sample_context_def sample_world_def determine_python_exec_def replace_def)

lemma sample_version:
  "determine_python_version sample_world
     (determine_python_exec (cmake_args sample_context) (PYTHON_EXEC sample_world))
   = Inr \<lparr>major = 3, minor = 8\<rparr>"
  unfolding sample_exec
  by (simp add: sample_world_def determine_python_version_def bytes_split_def bytes_isspace_def
      LF_def parse_nat_def nat_of_digits_def isdigit_def digit_val_def)

lemma sample_setup:
  "read_text sample_world
     (os_path_join (os_path_join (source_space_abs sample_context) [''mypkg'']) [''setup.py''])
   = Some ''from setuptools import setup''"
  by (simp add: sample_world_def sample_context_def os_path_join_def join_step_def
      startswith_def endswith_def suffix_def)

lemma sample_dist: "str_in ''dist-packages'' (python_install_dir sample_world)"
  by (simp add: sample_world_def)


lemma sample_job:
  "\<exists>j. snd (create_python_build_job sample_world sample_context sample_package ''mypkg''
             [''roscpp''] False False) = Inr j"
  using sample_version sample_setup by (rule create_python_build_job_returns)

lemma python_stage:
  assumes "snd (create_python_build_job w ctx pkg package_path dependencies force_cmake pre_clean)
             = Inr j"
    and "determine_python_version w (determine_python_exec (cmake_args ctx) (PYTHON_EXEC w)) = Inr v"
    and "read_text w (os_path_join (os_path_join (source_space_abs ctx) [package_path]) [''setup.py''])
       = Some src"
  shows "filter (\<lambda>st. label st = ''python'') (stages j) =
     [CommandStage ''python''
        ([Some (determine_python_exec (cmake_args ctx) (PYTHON_EXEC w)), Some ''setup.py'',
          Some ''build'', Some ''--build-base'', Some (package_build_space ctx pkg),
          Some ''install'', Some ''--root'', Some (package_build_space ctx pkg),
          Some ''--prefix'', Some ''install''] @
         (if re_search svem_pattern src then [Some ''--single-version-externally-managed''] else []))
        (os_path_join (source_space_abs ctx) [package_path]) None]"
  using assms by (auto simp: create_python_build_job_def Let_def)


lemma version_stages:
  assumes "snd (create_python_build_job w ctx pkg package_path dependencies force_cmake pre_clean)
             = Inr j"
    and "determine_python_version w (determine_python_exec (cmake_args ctx) (PYTHON_EXEC w)) = Inr v"
    and "read_text w (os_path_join (os_path_join (source_space_abs ctx) [package_path]) [''setup.py''])
       = Some src"
  shows "filter (\<lambda>st. label st = ''fix_python3_install_space'') (stages j) =
           (if major v = 3
            then [FunctionStage ''fix_python3_install_space''
                    (Fix_python3_install_space (package_dest_path ctx pkg)
                       (str_int (major v) @ ''.'' @ str_int (minor v)) (major v))
                    (Some ''installspace'')]
            else [])"
   and "filter (\<lambda>st. label st = ''debian-fix'') (stages j) =
           (if str_in ''dist-packages'' (python_install_dir w)
            then [FunctionStage ''debian-fix''
                    (Renamepath
                       (os_path_join (package_build_space ctx pkg)
                          [''install'',
                           replace (python_install_dir w) ''dist-packages'' ''site-packages''])
                       (os_path_join (package_build_space ctx pkg)
                          [''install'',
                           if major v = 3
                           then replace (python_install_dir w)
                                  (''python'' @ str_int (major v) @ ''.'' @ str_int (minor v))
                                  (''python'' @ str_int (major v))
                           else python_install_dir w]))
                    None]
            else [])"
  using assms by (auto simp: create_python_build_job_def Let_def)




lemma sample_py2_version:
  "determine_python_version sample_world_py2
     (determine_python_exec (cmake_args sample_context_py2) (PYTHON_EXEC sample_world_py2))
   = Inr \<lparr>major = 2, minor = 7\<rparr>"
  by (simp add: sample_world_py2_def sample_context_py2_def sample_context_def sample_world_def
      determine_python_exec_def
      determine_python_version_def bytes_split_def bytes_isspace_def
      LF_def parse_nat_def nat_of_digits_def isdigit_def digit_val_def)

lemma sample_py2_setup:
  "read_text sample_world_py2
     (os_path_join (os_path_join (source_space_abs sample_context_py2) [''mypkg'']) [''setup.py''])
   = Some ''from setuptools import setup''"
  using sample_setup by (simp add: sample_world_py2_def sample_context_py2_def)

lemma sample_py2_job:
  "\<exists>j. snd (create_python_build_job sample_world_py2 sample_context_py2 sample_package ''mypkg''
             [''roscpp''] False False) = Inr j"
  using sample_py2_version sample_py2_setup by (rule create_python_build_job_returns)

lemma sample_bs: "package_build_space sample_context sample_package = ''/ws/build/mypkg''"
  by (simp add: sample_context_def sample_package_def)

lemma sample_py2_bs: "package_build_space sample_context_py2 sample_package = ''/ws/build/mypkg''"
  by (simp add: sample_context_py2_def sample_context_def sample_package_def)

lemma sample_install_dir: "python_install_dir sample_world = ''lib/python3.8/dist-packages''"
  by (simp add: sample_world_def)

lemma str_int_3_8: "str_int 3 = ''3''" "str_int 8 = ''8''"
  by (simp_all add: str_int_def digit_char_def)

lemma sample_py2_dist: "str_in ''dist-packages'' (python_install_dir sample_world_py2)"
  by (simp add: sample_world_py2_def)

lemma join_install:
  "os_path_join ''/ws/build/mypkg'' [''install'', ''lib/python3/dist-packages''] = ''/ws/build/mypkg/install/lib/python3/dist-packages''"
  "os_path_join ''/ws/build/mypkg'' [''install'', ''lib/python3.8/site-packages''] = ''/ws/build/mypkg/install/lib/python3.8/site-packages''"
  "os_path_join ''/ws/build/mypkg'' [''install'', ''lib/python2.7/site-packages''] = ''/ws/build/mypkg/install/lib/python2.7/site-packages''"
  "os_path_join ''/ws/build/mypkg'' [''install'', ''lib/python2.7/dist-packages''] = ''/ws/build/mypkg/install/lib/python2.7/dist-packages''"
  by (simp_all add: os_path_join_def join_step_def startswith_def endswith_def suffix_def)



lemma strip_ccache_examples:
  "strip_ccache ''ccache gcc -O2'' = ''gcc -O2''"
  "strip_ccache ''gcc -O2'' = ''gcc -O2''"
  by (simp_all add: strip_ccache_def str_split_def str_isspace_def)

subsection \<open>Facts about \<open>fix_shebangs\<close>\<close>


























section \<open>The claims\<close>



text \<open>
  Claim C10. \<open>create_python_clean_job\<close> returns, whatever the flags \<open>dry_run\<close>,
  \<open>clean_build\<close>, \<open>clean_devel\<close> and \<open>clean_install\<close> are, the job with the package
  name as id, the given dependencies, an empty environment and no stage.
\<close>

theorem create_python_clean_job_empty:
  "create_python_clean_job ctx pkg package_path dependencies dry_run
       clean_build clean_devel clean_install
   = \<lparr>jid = name pkg, deps = dependencies, env = Map.empty, stages = []\<rparr>"
  by (simp add: create_python_clean_job_def)

text \<open>
  Claim C2. The \<open>python\<close> command stage is unique, and its argument list is the ten
  fixed arguments followed by \<open>--single-version-externally-managed\<close> exactly when the
  text of \<open>setup.py\<close> contains a match of \<open>(from|import) setuptools\<close>; all other
  arguments are the same in both cases. Unless the interpreter path or the build space is
  itself that word, the flag is therefore an element of the argument list if and only if
  the pattern matches.
\<close>

theorem python_stage_svem_flag:
  assumes "snd (create_python_build_job w ctx pkg package_path dependencies force_cmake pre_clean)
             = Inr j"
    and "read_text w (os_path_join (os_path_join (source_space_abs ctx) [package_path]) [''setup.py''])
       = Some src"
  shows "filter (\<lambda>st. label st = ''python'') (stages j) =
     [CommandStage ''python''
        ([Some (determine_python_exec (cmake_args ctx) (PYTHON_EXEC w)), Some ''setup.py'',
          Some ''build'', Some ''--build-base'', Some (package_build_space ctx pkg),
          Some ''install'', Some ''--root'', Some (package_build_space ctx pkg),
          Some ''--prefix'', Some ''install''] @
         (if re_search svem_pattern src then [Some ''--single-version-externally-managed''] else []))
        (os_path_join (source_space_abs ctx) [package_path]) None]
    \<and> (determine_python_exec (cmake_args ctx) (PYTHON_EXEC w) \<noteq> ''--single-version-externally-managed''
       \<and> package_build_space ctx pkg \<noteq> ''--single-version-externally-managed''
       \<longrightarrow> (\<forall>st\<in>set (stages j). label st = ''python'' \<longrightarrow>
             (Some ''--single-version-externally-managed'' \<in> set (cmd st))
               = re_search svem_pattern src))"
proof -
  from assms(1) obtain v src' where
    v: "determine_python_version w (determine_python_exec (cmake_args ctx) (PYTHON_EXEC w)) = Inr v"
    by (rule create_python_build_job_ok)
  note st = python_stage[OF assms(1) v assms(2)]
  have "(Some ''--single-version-externally-managed'' \<in> set (cmd x)) = re_search svem_pattern src"
    if ne: "determine_python_exec (cmake_args ctx) (PYTHON_EXEC w)
              \<noteq> ''--single-version-externally-managed''"
       "package_build_space ctx pkg \<noteq> ''--single-version-externally-managed''"
      and x: "x \<in> set (stages j)" "label x = ''python''" for x
  proof -
    from x have "x \<in> set (filter (\<lambda>st. label st = ''python'') (stages j))" by simp
    then show ?thesis using ne unfolding st by auto
  qed
  then show ?thesis using st by blast
qed

theorem python_stage_svem_flag_witness:
  "read_text sample_world
     (os_path_join (os_path_join (source_space_abs sample_context) [''mypkg'']) [''setup.py''])
     = Some ''from setuptools import setup''
   \<and> re_search svem_pattern ''from setuptools import setup''
   \<and> (\<exists>j. snd (create_python_build_job sample_world sample_context sample_package ''mypkg''
                 [''roscpp''] False False) = Inr j
        \<and> filter (\<lambda>st. label st = ''python'') (stages j) =
            [CommandStage ''python''
               [Some ''/usr/bin/python3'', Some ''setup.py'', Some ''build'', Some ''--build-base'',
                Some ''/ws/build/mypkg'', Some ''install'', Some ''--root'', Some ''/ws/build/mypkg'',
                Some ''--prefix'', Some ''install'', Some ''--single-version-externally-managed'']
               ''/ws/src/mypkg'' None])"
proof -
  obtain j where j: "snd (create_python_build_job sample_world sample_context sample_package ''mypkg''
                 [''roscpp''] False False) = Inr j"
    using sample_job by blast
  have m: "re_search svem_pattern ''from setuptools import setup''"
    by (simp add: svem_pattern_def re_match_def)
  have p: "os_path_join (source_space_abs sample_context) [''mypkg''] = ''/ws/src/mypkg''"
    by (simp add: sample_context_def os_path_join_def join_step_def startswith_def endswith_def suffix_def)
  have b: "package_build_space sample_context sample_package = ''/ws/build/mypkg''"
    by (simp add: sample_context_def sample_package_def)
  from python_stage_svem_flag[OF j sample_setup]
  show ?thesis using j m sample_setup by (simp add: sample_exec p b)
qed

text \<open>
  Claim C3. When the probe reports major version 3, the stage list holds exactly one
  \<open>fix_python3_install_space\<close> stage, and the destination of the \<open>debian-fix\<close> rename
  (present when the install directory name contains \<open>dist-packages\<close>) is the install
  directory name with every \<open>pythonMAJOR.MINOR\<close> replaced by \<open>pythonMAJOR\<close>. When the
  probe reports major version 2, there is no \<open>fix_python3_install_space\<close> stage and the
  destination keeps the install directory name as it is.
\<close>

theorem version_dependent_stages:
  assumes "snd (create_python_build_job w ctx pkg package_path dependencies force_cmake pre_clean)
             = Inr j"
    and "determine_python_version w (determine_python_exec (cmake_args ctx) (PYTHON_EXEC w)) = Inr v"
  shows "(major v = 3 \<longrightarrow>
            length (filter (\<lambda>st. label st = ''fix_python3_install_space'') (stages j)) = 1
          \<and> filter (\<lambda>st. label st = ''debian-fix'') (stages j) =
              (if str_in ''dist-packages'' (python_install_dir w)
               then [FunctionStage ''debian-fix''
                       (Renamepath
                          (os_path_join (package_build_space ctx pkg)
                             [''install'',
                              replace (python_install_dir w) ''dist-packages'' ''site-packages''])
                          (os_path_join (package_build_space ctx pkg)
                             [''install'',
                              replace (python_install_dir w)
                                (''python'' @ str_int (major v) @ ''.'' @ str_int (minor v))
                                (''python'' @ str_int (major v))]))
                       None]
               else []))
       \<and> (major v = 2 \<longrightarrow>
            filter (\<lambda>st. label st = ''fix_python3_install_space'') (stages j) = []
          \<and> filter (\<lambda>st. label st = ''debian-fix'') (stages j) =
              (if str_in ''dist-packages'' (python_install_dir w)
               then [FunctionStage ''debian-fix''
                       (Renamepath
                          (os_path_join (package_build_space ctx pkg)
                             [''install'',
                              replace (python_install_dir w) ''dist-packages'' ''site-packages''])
                          (os_path_join (package_build_space ctx pkg)
                             [''install'', python_install_dir w]))
                       None]
               else []))"
proof -
  from assms(1) obtain v' src where
    "determine_python_version w (determine_python_exec (cmake_args ctx) (PYTHON_EXEC w)) = Inr v'"
    and src: "read_text w
       (os_path_join (os_path_join (source_space_abs ctx) [package_path]) [''setup.py'']) = Some src"
    by (rule create_python_build_job_ok)
  note st = version_stages[OF assms(1) assms(2) src]
  show ?thesis unfolding st by simp
qed

theorem version_dependent_stages_witness:
  "(\<exists>j. snd (create_python_build_job sample_world sample_context sample_package ''mypkg''
             [''roscpp''] False False) = Inr j
      \<and> length (filter (\<lambda>st. label st = ''fix_python3_install_space'') (stages j)) = 1
      \<and> filter (\<lambda>st. label st = ''debian-fix'') (stages j) =
           [FunctionStage ''debian-fix''
              (Renamepath ''/ws/build/mypkg/install/lib/python3.8/site-packages''
                          ''/ws/build/mypkg/install/lib/python3/dist-packages'') None])
   \<and> (\<exists>j. snd (create_python_build_job sample_world_py2 sample_context_py2 sample_package ''mypkg''
             [''roscpp''] False False) = Inr j
      \<and> filter (\<lambda>st. label st = ''fix_python3_install_space'') (stages j) = []
      \<and> filter (\<lambda>st. label st = ''debian-fix'') (stages j) =
           [FunctionStage ''debian-fix''
              (Renamepath ''/ws/build/mypkg/install/lib/python2.7/site-packages''
                          ''/ws/build/mypkg/install/lib/python2.7/dist-packages'') None])"
proof -
  obtain j where j: "snd (create_python_build_job sample_world sample_context sample_package
      ''mypkg'' [''roscpp''] False False) = Inr j"
    using sample_job by blast
  obtain j2 where j2: "snd (create_python_build_job sample_world_py2 sample_context_py2
      sample_package ''mypkg'' [''roscpp''] False False) = Inr j2"
    using sample_py2_job by blast
  have d2: "python_install_dir sample_world_py2 = ''lib/python2.7/dist-packages''"
    by (simp add: sample_world_py2_def)
  have a: "length (filter (\<lambda>st. label st = ''fix_python3_install_space'') (stages j)) = 1
      \<and> filter (\<lambda>st. label st = ''debian-fix'') (stages j) =
           [FunctionStage ''debian-fix''
              (Renamepath ''/ws/build/mypkg/install/lib/python3.8/site-packages''
                          ''/ws/build/mypkg/install/lib/python3/dist-packages'') None]"
    using version_dependent_stages[OF j sample_version] sample_dist
    by (simp add: sample_bs sample_install_dir str_int_3_8 replace_def join_install)
  have b: "filter (\<lambda>st. label st = ''fix_python3_install_space'') (stages j2) = []
      \<and> filter (\<lambda>st. label st = ''debian-fix'') (stages j2) =
           [FunctionStage ''debian-fix''
              (Renamepath ''/ws/build/mypkg/install/lib/python2.7/site-packages''
                          ''/ws/build/mypkg/install/lib/python2.7/dist-packages'') None]"
    using version_dependent_stages[OF j2 sample_py2_version] sample_py2_dist
    by (simp add: sample_py2_bs d2 replace_def join_install)
  from j a j2 b show ?thesis by blast
qed






text \<open>
  Claim C6. \<open>strip_ccache\<close> splits its argument at whitespace, drops every token that
  contains \<open>ccache\<close> and joins the rest with single spaces, so that
  \<open>ccache gcc -O2\<close> becomes \<open>gcc -O2\<close> and \<open>gcc -O2\<close> stays as it is. It is idempotent,
  and the tokens of its result are the kept tokens of its argument in their order. The
  environment of a returned job is the ambient environment with \<open>strip_ccache\<close> applied
  to the \<open>CC\<close> and \<open>CXX\<close> entries where present, every other entry unchanged.
\<close>

theorem strip_ccache_job_env:
  "strip_ccache ''ccache gcc -O2'' = ''gcc -O2''
   \<and> strip_ccache ''gcc -O2'' = ''gcc -O2''
   \<and> strip_ccache s = str_join '' '' (filter (\<lambda>part. \<not> str_in ''ccache'' part) (str_split s))
   \<and> strip_ccache (strip_ccache s) = strip_ccache s
   \<and> str_split (strip_ccache s) = filter (\<lambda>part. \<not> str_in ''ccache'' part) (str_split s)
   \<and> (snd (create_python_build_job w ctx pkg package_path dependencies force_cmake pre_clean)
         = Inr j
        \<longrightarrow> env j = (\<lambda>k. if k = ''CC'' \<or> k = ''CXX''
                           then map_option strip_ccache (environ w k) else environ w k))"
proof -
  have a: "strip_ccache s = str_join '' '' (filter (\<lambda>part. \<not> str_in ''ccache'' part) (str_split s))"
    by (simp add: strip_ccache_def)
  have b: "snd (create_python_build_job w ctx pkg package_path dependencies force_cmake pre_clean)
         = Inr j
        \<longrightarrow> env j = (\<lambda>k. if k = ''CC'' \<or> k = ''CXX''
                           then map_option strip_ccache (environ w k) else environ w k)"
  proof
    assume "snd (create_python_build_job w ctx pkg package_path dependencies force_cmake pre_clean)
         = Inr j"
    then have "env j = build_job_env (environ w)"
      by (rule job_fields[THEN conjunct2, THEN conjunct2])
    then show "env j = (\<lambda>k. if k = ''CC'' \<or> k = ''CXX''
                           then map_option strip_ccache (environ w k) else environ w k)"
      by (simp only: build_job_env_apply[abs_def])
  qed
  from strip_ccache_examples a strip_ccache_idem str_split_strip_ccache b
  show ?thesis by (intro conjI)
qed

theorem strip_ccache_job_env_witness:
  "\<exists>j. snd (create_python_build_job sample_world sample_context sample_package ''mypkg''
             [''roscpp''] False False) = Inr j
     \<and> env j ''CC'' = Some ''gcc -O2''
     \<and> env j ''CXX'' = None
     \<and> env j ''HOME'' = Some ''/root''"
proof -
  obtain j where j: "snd (create_python_build_job sample_world sample_context sample_package
      ''mypkg'' [''roscpp''] False False) = Inr j"
    using sample_job by (rule exE)
  have e: "env j = (\<lambda>k. if k = ''CC'' \<or> k = ''CXX''
                then map_option strip_ccache (environ sample_world k) else environ sample_world k)"
    using strip_ccache_job_env[of "[]" sample_world sample_context sample_package "''mypkg''"
        "[''roscpp'']" False False j] j by (elim conjE) (rule mp)
  have c: "env j ''CC'' = Some ''gcc -O2''"
    unfolding e by (simp add: sample_world_def strip_ccache_examples)
  have x: "env j ''CXX'' = None"
    unfolding e by (simp add: sample_world_def)
  have h: "env j ''HOME'' = Some ''/root''"
    unfolding e by (simp add: sample_world_def)
  from j c x h have "snd (create_python_build_job sample_world sample_context sample_package
      ''mypkg'' [''roscpp''] False False) = Inr j
     \<and> env j ''CC'' = Some ''gcc -O2''
     \<and> env j ''CXX'' = None
     \<and> env j ''HOME'' = Some ''/root''"
    by (intro conjI)
  then show ?thesis by (rule exI[where x = j])
qed




text \<open>
  Claim C5, at an input where it fails: \<open>setup.sh\<close> holds \<open>export A=1\<close>, with no
  occurrence of \<open>/lib/python3.8\<close>. The helper still opens the file for writing and writes
  the same bytes back, because it tests that the contents are not empty, not that a
  replacement took place.
\<close>

theorem fix_python3_install_space_writes_unchanged:
  "\<not> str_in ''/lib/python3.8'' ''export A=1''
   \<and> fix_python3_install_space
       \<lparr>files = [''/ws/install/setup.sh'' \<mapsto> ''export A=1''], writes = []\<rparr>
       ''/ws/install'' ''3.8'' 3
     = \<lparr>files = [''/ws/install/setup.sh'' \<mapsto> ''export A=1''],
        writes = [(''/ws/install/setup.sh'', ''export A=1'')]\<rparr>"
  by (simp add: fix_python3_install_space_def Let_def write_file_def replace_def str_int_def
      digit_char_def os_path_join_def join_step_def startswith_def endswith_def
      suffix_to_prefix)

end
